theory Spec2Isabelle
  imports Complex_Main
begin

section \<open>The region-of-interest shapes of cloudviz/roi.py\<close>

text \<open>
  The three shape classes \<^verbatim>\<open>RectangularROI\<close>, \<^verbatim>\<open>CircularROI\<close> and
  \<^verbatim>\<open>PolygonalROI\<close> are embedded as records with one function per method; a method
  that assigns attributes takes the shape and returns the shape after the call.

  Numbers. The coordinates of the source are IEEE doubles held in numpy arrays. Here a
  coordinate is a \<^typ>\<open>real\<close>: a finite double, with arithmetic carried out exactly
  (no rounding, no overflow). Comparisons of finite doubles are exact, so they are the
  comparisons of the reals. The one place where the source leaves the finite numbers on
  finite inputs is the quotient in \<^verbatim>\<open>PolygonalROI.contains\<close>, whose divisor can be
  zero; that quotient is modelled with the values and the error categories numpy gives it.

  Arrays. A coordinate array is one-dimensional, a \<^typ>\<open>real list\<close>. An elementwise
  operation on two arrays follows numpy's broadcasting for one dimension: equal lengths
  pair up, a length-one array is stretched, anything else raises \<^verbatim>\<open>ValueError\<close>.

  An attribute that holds \<^verbatim>\<open>None\<close> is \<^term>\<open>None\<close>; ordering or subtracting an
  array with \<^verbatim>\<open>None\<close> raises \<^verbatim>\<open>TypeError\<close>.
\<close>

datatype error = TypeError | ValueError | IndexError

definition broadcast2 :: "('a \<Rightarrow> 'b \<Rightarrow> 'c) \<Rightarrow> 'a list \<Rightarrow> 'b list \<Rightarrow> error + 'c list" where
  "broadcast2 f a b =
     (if length a = length b then Inr (map2 f a b)
      else if length a = 1 then Inr (map (f (hd a)) b)
      else if length b = 1 then Inr (map (\<lambda>u. f u (hd b)) a)
      else Inl ValueError)"

subsection \<open>RectangularROI\<close>

record RectangularROI =
  xmin :: "real option"
  xmax :: "real option"
  ymin :: "real option"
  ymax :: "real option"

definition RectangularROI_init :: RectangularROI where
  "RectangularROI_init = \<lparr>xmin = None, xmax = None, ymin = None, ymax = None\<rparr>"

text \<open>
  \<^verbatim>\<open>return (x > self.xmin) & (x < self.xmax) & (y > self.ymin) & (y < self.ymax)\<close>,
  evaluated left to right: the two comparisons of \<^verbatim>\<open>x\<close>, their conjunction, the
  comparison with \<^verbatim>\<open>ymin\<close>, the conjunction that broadcasts \<^verbatim>\<open>x\<close> against
  \<^verbatim>\<open>y\<close>, the comparison with \<^verbatim>\<open>ymax\<close> and the last conjunction.
\<close>

definition RectangularROI_contains :: "RectangularROI \<Rightarrow> real list \<Rightarrow> real list \<Rightarrow> error + bool list" where
  "RectangularROI_contains r x y =
     (case xmin r of None \<Rightarrow> Inl TypeError | Some x0 \<Rightarrow>
     (case xmax r of None \<Rightarrow> Inl TypeError | Some x1 \<Rightarrow>
     (case ymin r of None \<Rightarrow> Inl TypeError | Some y0 \<Rightarrow>
     (case broadcast2 (\<and>) (map (\<lambda>a. a > x0 \<and> a < x1) x) (map (\<lambda>b. b > y0) y) of
        Inl e \<Rightarrow> Inl e
      | Inr m \<Rightarrow>
     (case ymax r of None \<Rightarrow> Inl TypeError | Some y1 \<Rightarrow>
        broadcast2 (\<and>) m (map (\<lambda>b. b < y1) y))))))"

definition update_limits :: "real \<Rightarrow> real \<Rightarrow> real \<Rightarrow> real \<Rightarrow> RectangularROI \<Rightarrow> RectangularROI" where
  "update_limits x0 y0 x1 y1 r = r\<lparr>xmin := Some x0, xmax := Some x1, ymin := Some y0, ymax := Some y1\<rparr>"

definition RectangularROI_reset :: "RectangularROI \<Rightarrow> RectangularROI" where
  "RectangularROI_reset r = r\<lparr>xmin := None, xmax := None, ymin := None, ymax := None\<rparr>"

definition RectangularROI_defined :: "RectangularROI \<Rightarrow> bool" where
  "RectangularROI_defined r \<longleftrightarrow> xmin r \<noteq> None"

subsection \<open>CircularROI\<close>

record CircularROI =
  xc :: "real option"
  yc :: "real option"
  radius :: real





definition CircularROI_reset :: "CircularROI \<Rightarrow> CircularROI" where
  "CircularROI_reset c = c\<lparr>xc := None, yc := None, radius := 0\<rparr>"

definition CircularROI_defined :: "CircularROI \<Rightarrow> bool" where
  "CircularROI_defined c \<longleftrightarrow> xc c \<noteq> None"

subsection \<open>numpy arithmetic used by PolygonalROI.contains\<close>

text \<open>
  \<^verbatim>\<open>np.roll(a, 1)\<close>: every element moves one place to the right and the last one
  comes to the front.
\<close>

definition np_roll1 :: "'a list \<Rightarrow> 'a list" where
  "np_roll1 a = (if a = [] then [] else last a # butlast a)"

text \<open>
  The value of a floating-point quotient: a finite number, an infinity or not-a-number.
  A quotient with divisor zero raises numpy's error category \<^verbatim>\<open>divide\<close> (finite
  nonzero dividend, the result is an infinity with the dividend's sign, the zero divisor
  \<^verbatim>\<open>b - b\<close> being \<^verbatim>\<open>+0.0\<close>) or \<^verbatim>\<open>invalid\<close> (zero dividend, the result is
  not-a-number). Line 2 of the module, \<^verbatim>\<open>np.seterr(all='ignore')\<close>, tells numpy to
  drop these errors: no warning and no exception. The model keeps them as a log beside
  the value, so that what is dropped can be stated.
\<close>

datatype xreal = Fin real | PInf | NInf | NaN

datatype fperr = Divide | Invalid

definition np_true_divide :: "real \<Rightarrow> real \<Rightarrow> xreal \<times> fperr list" where
  "np_true_divide n d =
     (if d \<noteq> 0 then (Fin (n / d), [])
      else if n = 0 then (NaN, [Invalid])
      else if n > 0 then (PInf, [Divide])
      else (NInf, [Divide]))"

fun xadd :: "xreal \<Rightarrow> real \<Rightarrow> xreal" where
  "xadd (Fin q) a = Fin (q + a)"
| "xadd PInf a = PInf"
| "xadd NInf a = NInf"
| "xadd NaN a = NaN"

fun xless :: "real \<Rightarrow> xreal \<Rightarrow> bool" where
  "xless u (Fin q) = (u < q)"
| "xless u PInf = True"
| "xless u NInf = False"
| "xless u NaN = False"

text \<open>
  \<^verbatim>\<open>result += t\<close> on an integer array \<^verbatim>\<open>result\<close> and a boolean array \<^verbatim>\<open>t\<close>:
  in place, so \<^verbatim>\<open>t\<close> has to broadcast to the shape of \<^verbatim>\<open>result\<close>.
\<close>

definition np_iadd :: "int list \<Rightarrow> bool list \<Rightarrow> error + int list" where
  "np_iadd result t =
     (if length t = length result then Inr (map2 (\<lambda>r b. r + of_bool b) result t)
      else if length t = 1 then Inr (map (\<lambda>r. r + of_bool (hd t)) result)
      else Inl ValueError)"

subsection \<open>PolygonalROI\<close>

record PolygonalROI =
  vx :: "real list"
  vy :: "real list"

definition PolygonalROI_init :: PolygonalROI where
  "PolygonalROI_init = \<lparr>vx = [], vy = []\<rparr>"

text \<open>
  What \<^verbatim>\<open>contains\<close> returns is either the integer array of line 138 or the boolean
  array of line 154.
\<close>

datatype ndarray = IntArr "int list" | BoolArr "bool list"

text \<open>
  The array added to \<^verbatim>\<open>result\<close> in one round of the loop, lines 150 to 152, for the
  edge with the numbers \<^verbatim>\<open>xi[i]\<close>, \<^verbatim>\<open>xj[i]\<close>, \<^verbatim>\<open>yi[i]\<close>, \<^verbatim>\<open>yj[i]\<close>:
  \<^verbatim>\<open>((yi[i] > y) != (yj[i] > y)) & (x < (xj[i] - xi[i]) * (y - yi[i]) / (yj[i] - yi[i]) + xi[i])\<close>.
  Both operands of \<^verbatim>\<open>&\<close> are computed for every sample: the quotient is taken for
  each element of \<^verbatim>\<open>y\<close> whatever the left operand is. The second component is the
  log of the floating-point errors of the quotients.
\<close>

definition edge_term :: "real \<Rightarrow> real \<Rightarrow> real \<Rightarrow> real \<Rightarrow> real list \<Rightarrow> real list \<Rightarrow> error + (bool list \<times> fperr list)" where
  "edge_term xi_i xj_i yi_i yj_i x y =
     (let c1 = map (\<lambda>b. (yi_i > b) \<noteq> (yj_i > b)) y;
          qs = map (\<lambda>b. np_true_divide ((xj_i - xi_i) * (b - yi_i)) (yj_i - yi_i)) y;
          rhs = map (\<lambda>q. xadd (fst q) xi_i) qs
      in case broadcast2 xless x rhs of
           Inl e \<Rightarrow> Inl e
         | Inr c2 \<Rightarrow>
             (case broadcast2 (\<and>) c1 c2 of
                Inl e \<Rightarrow> Inl e
              | Inr t \<Rightarrow> Inr (t, concat (map snd qs))))"

text \<open>
  The loop \<^verbatim>\<open>for i in range(len(xi))\<close> over the remaining indices, on the pair of
  \<^verbatim>\<open>result\<close> and the error log. \<^verbatim>\<open>yi[i]\<close> is read first and raises
  \<^verbatim>\<open>IndexError\<close> when \<^verbatim>\<open>vy\<close> is shorter than \<^verbatim>\<open>vx\<close>.
\<close>

fun contains_loop :: "real list \<Rightarrow> real list \<Rightarrow> real list \<Rightarrow> real list \<Rightarrow> real list \<Rightarrow> real list \<Rightarrow>
    nat list \<Rightarrow> int list \<times> fperr list \<Rightarrow> error + (int list \<times> fperr list)" where
  "contains_loop xi xj yi yj x y [] st = Inr st"
| "contains_loop xi xj yi yj x y (i # rest) st =
     (if length yi \<le> i then Inl IndexError
      else case edge_term (xi ! i) (xj ! i) (yi ! i) (yj ! i) x y of
             Inl e \<Rightarrow> Inl e
           | Inr (t, fl) \<Rightarrow>
               (case np_iadd (fst st) t of
                  Inl e \<Rightarrow> Inl e
                | Inr res \<Rightarrow> contains_loop xi xj yi yj x y rest (res, snd st @ fl)))"

text \<open>
  \<^verbatim>\<open>PolygonalROI.contains\<close> together with the log of the floating-point errors that
  numpy drops while it runs, and \<^verbatim>\<open>PolygonalROI.contains\<close> itself: what the caller
  gets.
\<close>

definition PolygonalROI_contains_np :: "PolygonalROI \<Rightarrow> real list \<Rightarrow> real list \<Rightarrow> error + (ndarray \<times> fperr list)" where
  "PolygonalROI_contains_np p x y =
     (let result = replicate (length x) (0::int) in
      if vx p = [] then Inr (IntArr result, [])
      else
        let xi = vx p; xj = np_roll1 xi; yi = vy p; yj = np_roll1 yi in
        case contains_loop xi xj yi yj x y [0..<length xi] (result, []) of
          Inl e \<Rightarrow> Inl e
        | Inr (res, fl) \<Rightarrow> Inr (BoolArr (map (\<lambda>r. r mod 2 = 1) res), fl))"

definition PolygonalROI_contains :: "PolygonalROI \<Rightarrow> real list \<Rightarrow> real list \<Rightarrow> error + ndarray" where
  "PolygonalROI_contains p x y =
     (case PolygonalROI_contains_np p x y of Inl e \<Rightarrow> Inl e | Inr (res, fl) \<Rightarrow> Inr res)"

text \<open>
  How a caller that uses the result as a mask reads one element: a boolean as it is, an
  integer by Python's truth value.
\<close>

fun as_mask :: "ndarray \<Rightarrow> bool list" where
  "as_mask (BoolArr bs) = bs"
| "as_mask (IntArr ns) = map (\<lambda>n. n \<noteq> 0) ns"

definition add_point :: "real \<Rightarrow> real \<Rightarrow> PolygonalROI \<Rightarrow> PolygonalROI" where
  "add_point x y p = p\<lparr>vx := vx p @ [x], vy := vy p @ [y]\<rparr>"

definition PolygonalROI_reset :: "PolygonalROI \<Rightarrow> PolygonalROI" where
  "PolygonalROI_reset p = p\<lparr>vx := [], vy := []\<rparr>"

text \<open>
  \<^verbatim>\<open>replace_last_point\<close> assigns in place, \<^verbatim>\<open>self.vx[-1]\<close> first; the assignment
  to \<^verbatim>\<open>self.vy[-1]\<close> raises \<^verbatim>\<open>IndexError\<close> on an empty \<^verbatim>\<open>vy\<close>, and then
  \<^verbatim>\<open>vx\<close> is already changed. The result is the polygon after the call and the error
  raised, if any.
\<close>

definition replace_last_point :: "real \<Rightarrow> real \<Rightarrow> PolygonalROI \<Rightarrow> PolygonalROI \<times> error option" where
  "replace_last_point x y p =
     (if length (vx p) > 0 then
        (let p1 = p\<lparr>vx := (vx p)[length (vx p) - 1 := x]\<rparr> in
         if length (vy p1) > 0 then (p1\<lparr>vy := (vy p1)[length (vy p1) - 1 := y]\<rparr>, None)
         else (p1, Some IndexError))
      else (p, None))"

text \<open>
  Python's \<^verbatim>\<open>min(inds, key=...)\<close>: the first element whose key is the smallest;
  \<^verbatim>\<open>ValueError\<close> on an empty sequence.
\<close>

fun min_scan :: "(nat \<Rightarrow> real) \<Rightarrow> nat \<Rightarrow> nat list \<Rightarrow> nat" where
  "min_scan key best [] = best"
| "min_scan key best (i # rest) = min_scan key (if key i < key best then i else best) rest"

fun py_min :: "nat list \<Rightarrow> (nat \<Rightarrow> real) \<Rightarrow> error + nat" where
  "py_min [] key = Inl ValueError"
| "py_min (i # rest) key = Inr (min_scan key i rest)"

text \<open>
  \<^verbatim>\<open>remove_point\<close>: \<^verbatim>\<open>zip\<close> stops at the shorter list, so every index of
  \<^verbatim>\<open>inds\<close> is in range for \<^verbatim>\<open>dist\<close>, \<^verbatim>\<open>vx\<close> and \<^verbatim>\<open>vy\<close>. The only raise
  is that of \<^verbatim>\<open>min\<close>, before any assignment.
\<close>

definition remove_point :: "real \<Rightarrow> real \<Rightarrow> real option \<Rightarrow> PolygonalROI \<Rightarrow> PolygonalROI \<times> error option" where
  "remove_point x y thresh p =
     (if vx p = [] then (p, None)
      else
        let dist = map2 (\<lambda>a b. (x - a) ^ 2 + (y - b) ^ 2) (vx p) (vy p);
            inds = [0..<length dist]
        in case py_min inds (\<lambda>i. dist ! i) of
             Inl e \<Rightarrow> (p, Some e)
           | Inr near \<Rightarrow>
               if (case thresh of None \<Rightarrow> False | Some t \<Rightarrow> dist ! near > t ^ 2) then (p, None)
               else (p\<lparr>vx := map (\<lambda>i. vx p ! i) (filter (\<lambda>i. i \<noteq> near) inds),
                       vy := map (\<lambda>i. vy p ! i) (filter (\<lambda>i. i \<noteq> near) inds)\<rparr>, None))"

definition PolygonalROI_defined :: "PolygonalROI \<Rightarrow> bool" where
  "PolygonalROI_defined p \<longleftrightarrow> length (vx p) > 0"

subsection \<open>The even-odd rule in the words of the specification\<close>


definition predecessor :: "nat \<Rightarrow> nat \<Rightarrow> nat" where
  "predecessor n i = (if i = 0 then n - 1 else i - 1)"

definition x_intersection :: "real \<times> real \<Rightarrow> real \<times> real \<Rightarrow> real \<Rightarrow> real" where
  "x_intersection v w y = fst v + (fst w - fst v) * (y - snd v) / (snd w - snd v)"

definition edge_crosses :: "real \<times> real \<Rightarrow> real \<times> real \<Rightarrow> real \<times> real \<Rightarrow> bool" where
  "edge_crosses v w s \<longleftrightarrow>
     ((snd v > snd s) \<noteq> (snd w > snd s)) \<and> x_intersection v w (snd s) > fst s"



subsection \<open>The calls on a polygon\<close>

text \<open>
  One constructor per method of \<^verbatim>\<open>PolygonalROI\<close> that can be called on an instance,
  and the polygon such a call leaves behind, also when the call raises.
  \<^verbatim>\<open>contains\<close> assigns no attribute: \<^verbatim>\<open>np.array(self.vx)\<close> copies the list, and
  \<^verbatim>\<open>np.roll\<close> and the loop work on the copies and on \<^verbatim>\<open>result\<close>.
\<close>

datatype poly_call =
    Add_point real real
  | Reset
  | Replace_last_point real real
  | Remove_point real real "real option"
  | Contains "real list" "real list"

fun PolygonalROI_after :: "poly_call \<Rightarrow> PolygonalROI \<Rightarrow> PolygonalROI" where
  "PolygonalROI_after (Add_point x y) p = add_point x y p"
| "PolygonalROI_after Reset p = PolygonalROI_reset p"
| "PolygonalROI_after (Replace_last_point x y) p = fst (replace_last_point x y p)"
| "PolygonalROI_after (Remove_point x y thresh) p = fst (remove_point x y thresh p)"
| "PolygonalROI_after (Contains x y) p = p"

section \<open>Rectangle and circle containment\<close>

text \<open>
  C2. On a rectangle whose four bounds are set, \<^verbatim>\<open>RectangularROI.contains\<close> returns
  one boolean per sample, and the boolean at index \<open>i\<close> is true exactly when
  \<open>xs[i] > xmin\<close>, \<open>xs[i] < xmax\<close>, \<open>ys[i] > ymin\<close> and \<open>ys[i] < ymax\<close>.
  All four inequalities are strict: when \<open>xmin < xmax\<close> and \<open>ymin < ymax\<close>, a sample
  with a coordinate equal to one of the bounds, so every point on an edge, is not
  contained.
\<close>

theorem rectangle_contains_strict:
  assumes "xmin r = Some x0" and "xmax r = Some x1" and "ymin r = Some y0" and "ymax r = Some y1"
    and "length xs = length ys" and "i < length xs"
  shows "\<exists>bs. RectangularROI_contains r xs ys = Inr bs \<and> length bs = length xs \<and>
           (bs ! i \<longleftrightarrow> xs ! i > x0 \<and> xs ! i < x1 \<and> ys ! i > y0 \<and> ys ! i < y1) \<and>
           (x0 < x1 \<and> y0 < y1 \<and> (xs ! i = x0 \<or> xs ! i = x1 \<or> ys ! i = y0 \<or> ys ! i = y1) \<longrightarrow> \<not> bs ! i)"
  using assms by (auto simp add: RectangularROI_contains_def broadcast2_def)

theorem rectangle_contains_strict_witness:
  "xmin (update_limits 0 0 2 4 RectangularROI_init) = Some 0 \<and>
   xmax (update_limits 0 0 2 4 RectangularROI_init) = Some 2 \<and>
   ymin (update_limits 0 0 2 4 RectangularROI_init) = Some 0 \<and>
   ymax (update_limits 0 0 2 4 RectangularROI_init) = Some 4 \<and>
   length [1, 0 :: real] = length [2, 2 :: real] \<and> 1 < length [1, 0 :: real] \<and>
   RectangularROI_contains (update_limits 0 0 2 4 RectangularROI_init) [1, 0] [2, 2] = Inr [True, False]"
proof -
  let ?r = "update_limits 0 0 2 4 RectangularROI_init"
  have h: "xmin ?r = Some 0" "xmax ?r = Some 2" "ymin ?r = Some 0" "ymax ?r = Some 4"
    "length [1, 0 :: real] = length [2, 2 :: real]" "1 < length [1, 0 :: real]"
    by (simp_all add: update_limits_def)
  from rectangle_contains_strict [OF h]
  obtain bs where "RectangularROI_contains ?r [1, 0] [2, 2] = Inr bs" and "\<not> bs ! 1"
    by auto
  moreover have "RectangularROI_contains ?r [1, 0] [2, 2] = Inr [True, False]"
    by (simp add: RectangularROI_contains_def update_limits_def broadcast2_def)
  ultimately show ?thesis using h by simp
qed





section \<open>Reset\<close>

text \<open>
  C9. For each of the three shapes and every state, resetting twice gives the state that
  resetting once gives, and \<^verbatim>\<open>defined()\<close> is false after a reset.
\<close>

theorem reset_idempotent:
  "RectangularROI_reset (RectangularROI_reset r) = RectangularROI_reset r \<and>
   \<not> RectangularROI_defined (RectangularROI_reset r) \<and>
   CircularROI_reset (CircularROI_reset c) = CircularROI_reset c \<and>
   \<not> CircularROI_defined (CircularROI_reset c) \<and>
   PolygonalROI_reset (PolygonalROI_reset p) = PolygonalROI_reset p \<and>
   \<not> PolygonalROI_defined (PolygonalROI_reset p)"
  by (simp add: RectangularROI_reset_def RectangularROI_defined_def CircularROI_reset_def
      CircularROI_defined_def PolygonalROI_reset_def PolygonalROI_defined_def)

section \<open>Polygon: the empty polygon and the last vertex\<close>

text \<open>
  C5. On a polygon without vertices, \<^verbatim>\<open>PolygonalROI.contains\<close> raises no error,
  whatever the two coordinate arrays are, and classifies every sample as outside. What it
  returns is the array of line 138, one integer \<open>0\<close> per element of \<^verbatim>\<open>x\<close>, whose
  truth values are all false.
\<close>

theorem contains_empty_polygon:
  assumes "vx p = []"
  shows "PolygonalROI_contains p xs ys = Inr (IntArr (replicate (length xs) 0)) \<and>
         as_mask (IntArr (replicate (length xs) 0)) = replicate (length xs) False"
  using assms by (simp add: PolygonalROI_contains_def PolygonalROI_contains_np_def)

theorem contains_empty_polygon_witness:
  "vx PolygonalROI_init = [] \<and>
   PolygonalROI_contains PolygonalROI_init [1, 2] [3, 4] = Inr (IntArr [0, 0]) \<and>
   as_mask (IntArr [0, 0]) = [False, False]"
proof -
  have h: "vx PolygonalROI_init = []" by (simp add: PolygonalROI_init_def)
  from contains_empty_polygon [OF h, of "[1, 2]" "[3, 4]"]
  show ?thesis using h by (simp add: numeral_2_eq_2)
qed

text \<open>
  C7. On a polygon whose two coordinate lists have one length,
  \<^verbatim>\<open>replace_last_point(x, y)\<close> raises no error; on an empty vertex list it changes
  nothing; otherwise the last vertex becomes \<open>(x, y)\<close>, the number of vertices stays and
  every earlier vertex keeps its coordinates. On the vertex list \<open>[(1, 1)]\<close> with
  \<open>(5, 5)\<close> the result is \<open>[(5, 5)]\<close>.
\<close>

theorem replace_last_point_last_only:
  assumes "length (vx p) = length (vy p)"
  shows "snd (replace_last_point x y p) = None \<and>
         (vx p = [] \<longrightarrow> fst (replace_last_point x y p) = p) \<and>
         (vx p \<noteq> [] \<longrightarrow>
            vx (fst (replace_last_point x y p)) = butlast (vx p) @ [x] \<and>
            vy (fst (replace_last_point x y p)) = butlast (vy p) @ [y]) \<and>
         length (vx (fst (replace_last_point x y p))) = length (vx p) \<and>
         length (vy (fst (replace_last_point x y p))) = length (vy p) \<and>
         (\<forall>i. Suc i < length (vx p) \<longrightarrow>
            vx (fst (replace_last_point x y p)) ! i = vx p ! i \<and>
            vy (fst (replace_last_point x y p)) ! i = vy p ! i) \<and>
         replace_last_point 5 5 \<lparr>vx = [1], vy = [1]\<rparr> = (\<lparr>vx = [5], vy = [5]\<rparr>, None)"
proof -
  have upd: "zs[length zs - 1 := z] = butlast zs @ [z]" if "zs \<noteq> []" for zs :: "real list" and z
    using that by (induction zs rule: rev_induct) simp_all
  have example: "replace_last_point 5 5 \<lparr>vx = [1], vy = [1]\<rparr> = (\<lparr>vx = [5], vy = [5]\<rparr>, None)"
    by (simp add: replace_last_point_def)
  show ?thesis
  proof (cases "vx p = []")
    case True
    then show ?thesis using example by (simp add: replace_last_point_def)
  next
    case False
    with assms have ne: "vy p \<noteq> []" by auto
    have run: "replace_last_point x y p = (p\<lparr>vx := butlast (vx p) @ [x], vy := butlast (vy p) @ [y]\<rparr>, None)"
      using False ne upd [of "vx p" x] upd [of "vy p" y] by (simp add: replace_last_point_def)
    show ?thesis
      using False ne assms example by (auto simp add: run nth_append nth_butlast)
  qed
qed

theorem replace_last_point_last_only_witness:
  "length (vx \<lparr>vx = [0, 1], vy = [2, 3]\<rparr>) = length (vy \<lparr>vx = [0, 1], vy = [2, 3]\<rparr>) \<and>
   vx \<lparr>vx = [0, 1], vy = [2, 3]\<rparr> \<noteq> [] \<and>
   Suc 0 < length (vx \<lparr>vx = [0, 1], vy = [2, 3]\<rparr>) \<and>
   snd (replace_last_point 7 8 \<lparr>vx = [0, 1], vy = [2, 3]\<rparr>) = None \<and>
   vx (fst (replace_last_point 7 8 \<lparr>vx = [0, 1], vy = [2, 3]\<rparr>)) = [0, 7] \<and>
   vy (fst (replace_last_point 7 8 \<lparr>vx = [0, 1], vy = [2, 3]\<rparr>)) = [2, 8] \<and>
   vx PolygonalROI_init = [] \<and>
   fst (replace_last_point 7 8 PolygonalROI_init) = PolygonalROI_init"
proof -
  let ?p = "\<lparr>vx = [0, 1], vy = [2, 3]\<rparr>"
  have h: "length (vx ?p) = length (vy ?p)" by simp
  have h0: "length (vx PolygonalROI_init) = length (vy PolygonalROI_init)"
    by (simp add: PolygonalROI_init_def)
  have e: "vx PolygonalROI_init = []" by (simp add: PolygonalROI_init_def)
  from replace_last_point_last_only [OF h, of 7 8] replace_last_point_last_only [OF h0, of 7 8] e
  show ?thesis by simp
qed

section \<open>Polygon containment: the even-odd rule\<close>

lemma np_roll1_nth:
  assumes "i < length a"
  shows "np_roll1 a ! i = a ! predecessor (length a) i"
proof -
  from assms have ne: "a \<noteq> []" by auto
  show ?thesis
  proof (cases i)
    case 0
    then show ?thesis using ne by (simp add: np_roll1_def predecessor_def last_conv_nth)
  next
    case (Suc j)
    then show ?thesis using ne assms by (simp add: np_roll1_def predecessor_def nth_butlast)
  qed
qed

lemma crossing_test_eq:
  "(((c > v) \<noteq> (d > v)) \<and> xless u (xadd (fst (np_true_divide ((b - a) * (v - c)) (d - c))) a))
     \<longleftrightarrow> edge_crosses (a, c) (b, d) (u, v)"
proof (cases "(c > v) \<noteq> (d > v)")
  case True
  then have "d - c \<noteq> 0" by auto
  then show ?thesis
    by (simp add: np_true_divide_def edge_crosses_def x_intersection_def add.commute)
next
  case False
  then show ?thesis by (simp add: edge_crosses_def)
qed

lemma edge_term_same_length:
  assumes "length x = length y"
  shows "edge_term a b c d x y =
     Inr (map2 (\<lambda>u v. edge_crosses (a, c) (b, d) (u, v)) x y,
          concat (map (\<lambda>v. snd (np_true_divide ((b - a) * (v - c)) (d - c))) y))"
proof -
  have "map2 (\<and>) (map (\<lambda>v. (c > v) \<noteq> (d > v)) y)
          (map2 xless x (map (\<lambda>q. xadd (fst q) a) (map (\<lambda>v. np_true_divide ((b - a) * (v - c)) (d - c)) y)))
        = map2 (\<lambda>u v. edge_crosses (a, c) (b, d) (u, v)) x y"
  proof (intro nth_equalityI)
    show "length (map2 (\<and>) (map (\<lambda>v. (c > v) \<noteq> (d > v)) y)
          (map2 xless x (map (\<lambda>q. xadd (fst q) a) (map (\<lambda>v. np_true_divide ((b - a) * (v - c)) (d - c)) y))))
        = length (map2 (\<lambda>u v. edge_crosses (a, c) (b, d) (u, v)) x y)"
      using assms by simp
  next
    fix i
    assume "i < length (map2 (\<and>) (map (\<lambda>v. (c > v) \<noteq> (d > v)) y)
          (map2 xless x (map (\<lambda>q. xadd (fst q) a) (map (\<lambda>v. np_true_divide ((b - a) * (v - c)) (d - c)) y))))"
    then have i: "i < length y" "i < length x" using assms by simp_all
    show "map2 (\<and>) (map (\<lambda>v. (c > v) \<noteq> (d > v)) y)
          (map2 xless x (map (\<lambda>q. xadd (fst q) a) (map (\<lambda>v. np_true_divide ((b - a) * (v - c)) (d - c)) y))) ! i
        = map2 (\<lambda>u v. edge_crosses (a, c) (b, d) (u, v)) x y ! i"
      using i crossing_test_eq [where v = "y ! i" and u = "x ! i"] by simp
  qed
  then show ?thesis
    using assms by (simp add: edge_term_def Let_def broadcast2_def comp_def)
qed

lemma contains_loop_count:
  assumes "length x = length y" and "length res = length x" and "\<forall>i\<in>set is. i < length yi"
  shows "\<exists>res' fl'. contains_loop xi xj yi yj x y is (res, fl) = Inr (res', fl') \<and>
           length res' = length x \<and>
           (\<forall>k<length x. res' ! k = res ! k +
              int (length (filter (\<lambda>i. edge_crosses (xi ! i, yi ! i) (xj ! i, yj ! i) (x ! k, y ! k)) is)))"
  using assms
proof (induction "is" arbitrary: res fl)
  case Nil
  then show ?case by simp
next
  case (Cons i rest)
  let ?t = "map2 (\<lambda>u v. edge_crosses (xi ! i, yi ! i) (xj ! i, yj ! i) (u, v)) x y"
  let ?res1 = "map2 (\<lambda>r b. r + of_bool b) res ?t"
  obtain fl1 where et: "edge_term (xi ! i) (xj ! i) (yi ! i) (yj ! i) x y = Inr (?t, fl1)"
    using edge_term_same_length [OF Cons.prems(1)] by blast
  have len_t: "length ?t = length res" using Cons.prems by simp
  have add: "np_iadd res ?t = Inr ?res1" using len_t by (simp add: np_iadd_def)
  have len1: "length ?res1 = length x" using Cons.prems by simp
  have rest: "\<forall>j\<in>set rest. j < length yi" using Cons.prems by simp
  from Cons.IH [OF Cons.prems(1) len1 rest, of "fl @ fl1"]
  obtain res' fl' where run: "contains_loop xi xj yi yj x y rest (?res1, fl @ fl1) = Inr (res', fl')"
    and len': "length res' = length x"
    and cnt: "\<forall>k<length x. res' ! k = ?res1 ! k +
              int (length (filter (\<lambda>i. edge_crosses (xi ! i, yi ! i) (xj ! i, yj ! i) (x ! k, y ! k)) rest))"
    by blast
  have step: "contains_loop xi xj yi yj x y (i # rest) (res, fl) = Inr (res', fl')"
    using Cons.prems et add run by simp
  have "res' ! k = res ! k +
      int (length (filter (\<lambda>i. edge_crosses (xi ! i, yi ! i) (xj ! i, yj ! i) (x ! k, y ! k)) (i # rest)))"
    if "k < length x" for k
    using that cnt Cons.prems by simp
  with step len' show ?case by blast
qed



section \<open>Polygon: removing the nearest vertex\<close>





section \<open>Polygon: both coordinate lists have one length\<close>

lemma call_keeps_lengths:
  assumes "length (vx p) = length (vy p)"
  shows "length (vx (PolygonalROI_after c p)) = length (vy (PolygonalROI_after c p))"
proof (cases c)
  case (Add_point x y)
  then show ?thesis using assms by (simp add: add_point_def)
next
  case Reset
  then show ?thesis by (simp add: PolygonalROI_reset_def)
next
  case (Replace_last_point x y)
  then show ?thesis using assms by (simp add: replace_last_point_def Let_def)
next
  case (Remove_point x y thresh)
  show ?thesis
  proof (cases "vx p = []")
    case True
    then show ?thesis using assms Remove_point by (simp add: remove_point_def)
  next
    case False
    have len: "length (map (\<lambda>i. vx p ! i) (filter (\<lambda>i. i \<noteq> k) inds)) =
               length (map (\<lambda>i. vy p ! i) (filter (\<lambda>i. i \<noteq> k) inds))" for k and inds :: "nat list"
      by simp
    show ?thesis
      using False assms len unfolding Remove_point
      by (simp add: remove_point_def Let_def split: sum.splits)
  qed
next
  case (Contains x y)
  then show ?thesis using assms by simp
qed

lemma calls_keep_lengths:
  assumes "length (vx p) = length (vy p)"
  shows "length (vx (foldl (\<lambda>q c. PolygonalROI_after c q) p cs)) =
         length (vy (foldl (\<lambda>q c. PolygonalROI_after c q) p cs))"
  using assms by (induction cs arbitrary: p) (simp_all add: call_keeps_lengths)

text \<open>
  C10. A new polygon has coordinate lists of one length; every call on a polygon whose
  lists have one length (\<^verbatim>\<open>add_point\<close>, \<^verbatim>\<open>reset\<close>, \<^verbatim>\<open>replace_last_point\<close>,
  \<^verbatim>\<open>remove_point\<close>, \<^verbatim>\<open>contains\<close>) leaves a polygon whose lists have one
  length; so the lists have one length after any sequence of calls on a new polygon.
\<close>

theorem polygon_lists_same_length:
  "length (vx PolygonalROI_init) = length (vy PolygonalROI_init) \<and>
   (length (vx p) = length (vy p) \<longrightarrow>
      length (vx (PolygonalROI_after c p)) = length (vy (PolygonalROI_after c p))) \<and>
   length (vx (foldl (\<lambda>q c. PolygonalROI_after c q) PolygonalROI_init cs)) =
     length (vy (foldl (\<lambda>q c. PolygonalROI_after c q) PolygonalROI_init cs))"
proof -
  have init: "length (vx PolygonalROI_init) = length (vy PolygonalROI_init)"
    by (simp add: PolygonalROI_init_def)
  from init calls_keep_lengths [OF init] call_keeps_lengths show ?thesis by blast
qed

theorem polygon_lists_same_length_witness:
  "length (vx \<lparr>vx = [3, 0, 2], vy = [0, 1, 1]\<rparr>) = length (vy \<lparr>vx = [3, 0, 2], vy = [0, 1, 1]\<rparr>) \<and>
   PolygonalROI_after (Remove_point 1 1 None) \<lparr>vx = [3, 0, 2], vy = [0, 1, 1]\<rparr> = \<lparr>vx = [3, 2], vy = [0, 1]\<rparr> \<and>
   length (vx (PolygonalROI_after (Remove_point 1 1 None) \<lparr>vx = [3, 0, 2], vy = [0, 1, 1]\<rparr>)) =
   length (vy (PolygonalROI_after (Remove_point 1 1 None) \<lparr>vx = [3, 0, 2], vy = [0, 1, 1]\<rparr>)) \<and>
   foldl (\<lambda>q c. PolygonalROI_after c q) PolygonalROI_init
     [Add_point 0 0, Add_point 1 0, Replace_last_point 2 0, Contains [1] [1], Remove_point 0 0 (Some 1)]
     = \<lparr>vx = [2], vy = [0]\<rparr>"
proof -
  let ?p = "\<lparr>vx = [3, 0, 2], vy = [0, 1, 1]\<rparr>"
  have h: "length (vx ?p) = length (vy ?p)" by simp
  have run: "PolygonalROI_after (Remove_point 1 1 None) ?p = \<lparr>vx = [3, 2], vy = [0, 1]\<rparr>"
    by code_simp
  have runs: "foldl (\<lambda>q c. PolygonalROI_after c q) PolygonalROI_init
     [Add_point 0 0, Add_point 1 0, Replace_last_point 2 0, Contains [1] [1], Remove_point 0 0 (Some 1)]
     = \<lparr>vx = [2], vy = [0]\<rparr>"
    by code_simp
  from polygon_lists_same_length [of ?p "Remove_point 1 1 None"] h
  have "length (vx (PolygonalROI_after (Remove_point 1 1 None) ?p)) =
        length (vy (PolygonalROI_after (Remove_point 1 1 None) ?p))"
    by blast
  with h run runs show ?thesis by blast
qed

section \<open>Polygon containment: horizontal edges\<close>

lemma contains_loop_log:
  assumes "contains_loop xi xj yi yj x y is (res, fl) = Inr (res', fl')" and "length x = length y"
  shows "fl' = fl @ concat (map (\<lambda>i. concat (map (\<lambda>v. snd (np_true_divide ((xj ! i - xi ! i) * (v - yi ! i)) (yj ! i - yi ! i))) y)) is)"
  using assms(1)
proof (induction "is" arbitrary: res fl)
  case Nil
  then show ?case by simp
next
  case (Cons i rest)
  let ?fli = "concat (map (\<lambda>v. snd (np_true_divide ((xj ! i - xi ! i) * (v - yi ! i)) (yj ! i - yi ! i))) y)"
  obtain t where et: "edge_term (xi ! i) (xj ! i) (yi ! i) (yj ! i) x y = Inr (t, ?fli)"
    using edge_term_same_length [OF assms(2)] by blast
  from Cons.prems et obtain res1 where
    "contains_loop xi xj yi yj x y rest (res1, fl @ ?fli) = Inr (res', fl')"
    by (simp split: if_splits sum.splits)
  from Cons.IH [OF this] show ?case by simp
qed

lemma length_member_concat:
  "i \<in> set is \<Longrightarrow> length (f i) \<le> length (concat (map f is))"
  by (induction "is") auto

lemma horizontal_edge_term:
  assumes "length x = length y"
  shows "edge_term a b c c x y =
     Inr (replicate (length x) False, map (\<lambda>v. if (b - a) * (v - c) = 0 then Invalid else Divide) y)"
proof -
  have t: "map2 (\<lambda>u v. edge_crosses (a, c) (b, c) (u, v)) x y = replicate (length x) False"
    using assms by (intro nth_equalityI) (simp_all add: edge_crosses_def)
  have f: "concat (map (\<lambda>v. snd (np_true_divide ((b - a) * (v - c)) (c - c))) y) =
           map (\<lambda>v. if (b - a) * (v - c) = 0 then Invalid else Divide) y"
    by (induction y) (simp_all add: np_true_divide_def)
  show ?thesis
    using edge_term_same_length [OF assms, of a b c c] by (simp only: t f)
qed

text \<open>
  C6, as the code has it. Let edge \<open>i\<close> of a polygon be horizontal: vertex \<open>i\<close> and its
  cyclic predecessor have the same y-coordinate. For all samples,
  \<^verbatim>\<open>PolygonalROI.contains\<close> treats the edge as never crossing the ray: the array it
  adds to \<^verbatim>\<open>result\<close> for the edge is false at every sample. The quotient of lines
  151 to 152 is still taken for that edge, with divisor zero and with no guard, once per
  sample; each raises numpy's \<^verbatim>\<open>divide\<close> or \<^verbatim>\<open>invalid\<close> error, which
  \<^verbatim>\<open>np.seterr(all='ignore')\<close> drops, and the call returns its boolean array
  without raising.
\<close>

theorem horizontal_edge_divides_by_zero:
  assumes "length (vx p) = length (vy p)" and "i < length (vx p)"
    and "vy p ! i = vy p ! predecessor (length (vx p)) i"
    and "length xs = length ys"
  shows "edge_term (vx p ! i) (np_roll1 (vx p) ! i) (vy p ! i) (np_roll1 (vy p) ! i) xs ys =
           Inr (replicate (length xs) False,
                map (\<lambda>v. if (np_roll1 (vx p) ! i - vx p ! i) * (v - vy p ! i) = 0 then Invalid else Divide) ys) \<and>
         (\<exists>bs fl. PolygonalROI_contains_np p xs ys = Inr (BoolArr bs, fl) \<and>
                  PolygonalROI_contains p xs ys = Inr (BoolArr bs) \<and>
                  length bs = length xs \<and> length ys \<le> length fl)"
proof -
  let ?n = "length (vx p)"
  let ?xj = "np_roll1 (vx p)" and ?yj = "np_roll1 (vy p)"
  have yj: "?yj ! i = vy p ! i"
    using assms(1,2,3) np_roll1_nth [of i "vy p"] by simp
  have edge: "edge_term (vx p ! i) (?xj ! i) (vy p ! i) (?yj ! i) xs ys =
           Inr (replicate (length xs) False,
                map (\<lambda>v. if (?xj ! i - vx p ! i) * (v - vy p ! i) = 0 then Invalid else Divide) ys)"
    unfolding yj by (rule horizontal_edge_term [OF assms(4)])
  from assms(2) have ne: "vx p \<noteq> []" by auto
  have zeros: "length (replicate (length xs) (0::int)) = length xs" by simp
  have inr: "\<forall>j\<in>set [0..<?n]. j < length (vy p)" using assms(1) by simp
  from contains_loop_count [OF assms(4) zeros inr, of "vx p" ?xj ?yj "[]"]
  obtain res fl where run: "contains_loop (vx p) ?xj (vy p) ?yj xs ys [0..<?n] (replicate (length xs) 0, []) = Inr (res, fl)"
    and len: "length res = length xs"
    by blast
  let ?f = "\<lambda>j. concat (map (\<lambda>v. snd (np_true_divide ((?xj ! j - vx p ! j) * (v - vy p ! j)) (?yj ! j - vy p ! j))) ys)"
  have log: "fl = concat (map ?f [0..<?n])"
    using contains_loop_log [OF run assms(4)] by simp
  have "length (?f i) = length ys"
    unfolding yj by (induction ys) (simp_all add: np_true_divide_def)
  moreover have "length (?f i) \<le> length (concat (map ?f [0..<?n]))"
    using assms(2) by (intro length_member_concat) simp
  ultimately have many: "length ys \<le> length fl" using log by simp
  have np: "PolygonalROI_contains_np p xs ys = Inr (BoolArr (map (\<lambda>r. r mod 2 = 1) res), fl)"
    using ne run by (simp add: PolygonalROI_contains_np_def Let_def)
  then have ret: "PolygonalROI_contains p xs ys = Inr (BoolArr (map (\<lambda>r. r mod 2 = 1) res))"
    by (simp add: PolygonalROI_contains_def)
  have "length (map (\<lambda>r. r mod 2 = 1) res) = length xs" using len by simp
  with np ret many have "\<exists>bs fl. PolygonalROI_contains_np p xs ys = Inr (BoolArr bs, fl) \<and>
                  PolygonalROI_contains p xs ys = Inr (BoolArr bs) \<and>
                  length bs = length xs \<and> length ys \<le> length fl"
    by blast
  with edge show ?thesis by (intro conjI)
qed

theorem horizontal_edge_divides_by_zero_witness:
  "length (vx \<lparr>vx = [0, 1, 1, 0], vy = [0, 0, 1, 1]\<rparr>) = length (vy \<lparr>vx = [0, 1, 1, 0], vy = [0, 0, 1, 1]\<rparr>) \<and>
   1 < length (vx \<lparr>vx = [0, 1, 1, 0], vy = [0, 0, 1, 1]\<rparr>) \<and>
   vy \<lparr>vx = [0, 1, 1, 0], vy = [0, 0, 1, 1]\<rparr> ! 1 =
     vy \<lparr>vx = [0, 1, 1, 0], vy = [0, 0, 1, 1]\<rparr> ! predecessor (length (vx \<lparr>vx = [0, 1, 1, 0], vy = [0, 0, 1, 1]\<rparr>)) 1 \<and>
   length [1 / 2 :: real] = length [1 / 2 :: real] \<and>
   edge_term 1 0 0 0 [1 / 2] [1 / 2] = Inr ([False], [Divide])"
proof -
  let ?p = "\<lparr>vx = [0, 1, 1, 0], vy = [0, 0, 1, 1]\<rparr>"
  have h: "length (vx ?p) = length (vy ?p)" "1 < length (vx ?p)"
    "vy ?p ! 1 = vy ?p ! predecessor (length (vx ?p)) 1"
    "length [1 / 2 :: real] = length [1 / 2 :: real]"
    by (simp_all add: predecessor_def)
  from horizontal_edge_divides_by_zero [OF h, THEN conjunct1]
  have "edge_term 1 0 0 0 [1 / 2] [1 / 2] = Inr ([False], [Divide])"
    by (simp add: np_roll1_def)
  with h show ?thesis by (intro conjI)
qed

text \<open>
  C6, as the specification words it, asks that no division by zero is performed
  unguarded and that no arithmetic error is suppressed. On the unit square, whose edges
  at indices \<open>1\<close> and \<open>3\<close> are horizontal, the call with the sample \<open>(0.5, 0.5)\<close>
  returns normally and has dropped two \<^verbatim>\<open>divide\<close> errors; the quotient of edge
  \<open>1\<close> is \<open>-0.5 / 0\<close>.
\<close>

theorem horizontal_edge_unguarded_counterexample:
  "PolygonalROI_contains_np \<lparr>vx = [0, 1, 1, 0], vy = [0, 0, 1, 1]\<rparr> [1 / 2] [1 / 2] =
     Inr (BoolArr [True], [Divide, Divide]) \<and>
   np_true_divide ((0 - 1) * (1 / 2 - 0)) (0 - 0) = (NInf, [Divide])"
  by (simp add: PolygonalROI_contains_np_def np_roll1_def edge_term_def broadcast2_def
      np_true_divide_def np_iadd_def upt_rec [of 0] upt_rec [of 1] upt_rec [of 2] upt_rec [of 3])

end
